theory Spec2Isabelle
  imports Complex_Main "HOL-Library.Sublist"
begin

section \<open>JavaScript values\<close>

text \<open>
  A JavaScript string is a sequence of UTF-16 code units; a code unit is modelled by its
  number. \<open>js\<close> turns a literal of the theory into such a string.
\<close>

type_synonym jsstring = "nat list"

definition js :: "string \<Rightarrow> jsstring" where
  "js s = map of_char s"

text \<open>
  The values a request body, a header or \<^verbatim>\<open>JSON.parse\<close> can hold. \<open>Undefined\<close> is what
  reading an absent property gives. A number is the value of the parsed double (both
  zeros are \<open>0\<close>).
\<close>

datatype jsval =
    Undefined
  | Null
  | Bool bool
  | Num real
  | Str jsstring
  | Arr "jsval list"
  | Obj "(jsstring \<times> jsval) list"

text \<open>\<^verbatim>\<open>!v\<close> is \<open>\<not> truthy v\<close>: the falsy values are undefined, null, false, 0 and the empty string.\<close>

fun truthy :: "jsval \<Rightarrow> bool" where
  "truthy Undefined = False"
| "truthy Null = False"
| "truthy (Bool b) = b"
| "truthy (Num x) = (x \<noteq> 0)"
| "truthy (Str s) = (s \<noteq> [])"
| "truthy (Arr xs) = True"
| "truthy (Obj kvs) = True"

text \<open>\<^verbatim>\<open>Array.isArray(v)\<close>\<close>

fun isArray :: "jsval \<Rightarrow> bool" where
  "isArray (Arr xs) = True"
| "isArray v = False"

text \<open>The values a \<^verbatim>\<open>for (const x of v)\<close> loop visits when \<open>v\<close> is an array.\<close>

fun elements :: "jsval \<Rightarrow> jsval list" where
  "elements (Arr xs) = xs"
| "elements v = []"

text \<open>
  A request body after \<^verbatim>\<open>express.json()\<close>: the destructuring
  \<^verbatim>\<open>const { k } = req.body\<close> reads \<open>body k\<close>, which is \<open>Undefined\<close> for an absent key.
\<close>

type_synonym jsobject = "jsstring \<Rightarrow> jsval"

section \<open>The database driver\<close>

text \<open>
  The sqlite3 driver is not part of the repository; it is a parameter. Its state (every
  open database) is a world \<open>'w\<close> that each call reads and changes, a database object is a
  handle \<open>'h\<close>. Each function gives what the driver passes to the callback of the call:
  \<^item> \<open>db_open f\<close>: \<^verbatim>\<open>new sqlite3.Database(f, cb)\<close>; the object is returned in any case, the
    callback gets the error message when opening failed;
  \<^item> \<open>db_run db sql\<close>: \<^verbatim>\<open>db.run(sql, cb)\<close>; the callback gets the error message on failure;
  \<^item> \<open>db_all db sql\<close>: \<^verbatim>\<open>db.all(sql, [], cb)\<close>; the callback gets the error message or the rows;
  \<^item> \<open>db_close db\<close>: \<^verbatim>\<open>db.close(cb)\<close>; the handler only logs what its callback gets.

  The driver runs the calls on one database object in the order they were made and
  invokes each callback once, after the handler has yielded (at an \<^verbatim>\<open>await\<close> or at its
  end). A driver that throws from the call itself is outside this model; the one case in
  which sqlite3 never calls back is described with \<open>execute_sql_on_sqlite3\<close> below.
\<close>

record ('w, 'h, 'row) driver =
  db_open :: "jsstring \<Rightarrow> 'w \<Rightarrow> (jsstring option \<times> 'h) \<times> 'w"
  db_run :: "'h \<Rightarrow> jsval \<Rightarrow> 'w \<Rightarrow> jsstring option \<times> 'w"
  db_all :: "'h \<Rightarrow> jsval \<Rightarrow> 'w \<Rightarrow> (jsstring + 'row list) \<times> 'w"
  db_close :: "'h \<Rightarrow> 'w \<Rightarrow> 'w"

section \<open>The execution handler: POST /api/execute-sql\<close>

text \<open>
  What the handler does that can be seen from outside, in the order it does it: its calls
  of the driver and its calls \<^verbatim>\<open>res.status(n).json(body)\<close> that send a response (\<open>Send n body\<close>;
  \<^verbatim>\<open>res.json(body)\<close> is status 200). Logging is left out.
\<close>

datatype 'row body =
    ErrorBody jsstring
  | ResultsBody "'row list"

datatype 'row event =
    DbOpen jsstring
  | DbRun jsval
  | DbAll jsval
  | DbClose
  | Send nat "'row body"

text \<open>
  The loop over \<^verbatim>\<open>insertDataSql\<close> (lines 146-156): each statement is run and awaited; the
  first error rejects with \<^verbatim>\<open>new Error(`Failed to insert data: ${err.message}`)\<close> and
  leaves the loop. The result is the calls made and the message of the rejection, if any.
\<close>

fun run_inserts ::
  "('w, 'h, 'row) driver \<Rightarrow> 'h \<Rightarrow> jsval list \<Rightarrow> 'w \<Rightarrow> ('row event list \<times> jsstring option) \<times> 'w"
where
  "run_inserts drv db [] w = (([], None), w)"
| "run_inserts drv db (insertStmt # rest) w =
     (case db_run drv db insertStmt w of
        (Some msg, w') \<Rightarrow> (([DbRun insertStmt], Some (js ''Failed to insert data: '' @ msg)), w')
      | (None, w') \<Rightarrow>
          (case run_inserts drv db rest w' of
             ((evs, r), w'') \<Rightarrow> ((DbRun insertStmt # evs, r), w'')))"

text \<open>The callback of \<^verbatim>\<open>new sqlite3.Database\<close> (lines 124-130): its \<^verbatim>\<open>return\<close> leaves the callback only.\<close>

definition open_callback :: "jsstring option \<Rightarrow> 'row event list" where
  "open_callback err =
     (case err of
        Some msg \<Rightarrow> [Send 500 (ErrorBody (js ''Failed to initialize database.''))]
      | None \<Rightarrow> [])"

text \<open>The \<^verbatim>\<open>catch\<close> block (lines 169-171), given \<^verbatim>\<open>error.message\<close>.\<close>

definition catch_block :: "jsstring \<Rightarrow> 'row event list" where
  "catch_block message =
     [Send 500 (ErrorBody (if message \<noteq> [] then message
        else js ''An unexpected error occurred during database operations.''))]"

text \<open>The callback of \<^verbatim>\<open>db.all\<close> (lines 160-167).\<close>

definition query_callback :: "jsstring + 'row list \<Rightarrow> 'row event" where
  "query_callback r =
     (case r of
        Inl msg \<Rightarrow> Send 500 (ErrorBody (js ''Failed to execute query: '' @ msg))
      | Inr rows \<Rightarrow> Send 200 (ResultsBody rows))"

text \<open>The condition of line 119 under which the request is answered with status 400.\<close>

definition rejects :: "jsobject \<Rightarrow> bool" where
  "rejects body =
     (let sqlQuery = body (js ''sqlQuery'');
          createTableSql = body (js ''createTableSql'');
          insertDataSql = body (js ''insertDataSql'')
      in \<not> truthy sqlQuery \<or> \<not> truthy createTableSql \<or> \<not> truthy insertDataSql
           \<or> \<not> isArray insertDataSql)"

text \<open>
  The handler (lines 115-182). After the validation it creates the database object and,
  without yielding, calls \<^verbatim>\<open>db.run(createTableSql, ...)\<close>; the callback of the opening runs
  next. A rejected \<^verbatim>\<open>await\<close> goes to the \<^verbatim>\<open>catch\<close> block and then to \<^verbatim>\<open>finally\<close>. When the
  loop is through, \<^verbatim>\<open>db.all\<close> is called and not awaited, so \<^verbatim>\<open>finally\<close> calls \<^verbatim>\<open>db.close\<close>
  before the callback of the query sends the response.
\<close>

definition execute_sql ::
  "('w, 'h, 'row) driver \<Rightarrow> jsobject \<Rightarrow> 'w \<Rightarrow> 'row event list \<times> 'w"
where
  "execute_sql drv body w =
     (let sqlQuery = body (js ''sqlQuery'');
          createTableSql = body (js ''createTableSql'');
          insertDataSql = body (js ''insertDataSql'')
      in
      if rejects body
      then ([Send 400 (ErrorBody
               (js ''SQL query, CREATE TABLE statement, and INSERT data are required.''))], w)
      else
        (case db_open drv (js '':memory:'') w of
           ((open_err, db), w1) \<Rightarrow>
             (case db_run drv db createTableSql w1 of
                (Some msg, w2) \<Rightarrow>
                  ([DbOpen (js '':memory:''), DbRun createTableSql] @ open_callback open_err
                     @ catch_block (js ''Failed to create table: '' @ msg) @ [DbClose],
                   db_close drv db w2)
              | (None, w2) \<Rightarrow>
                  (case run_inserts drv db (elements insertDataSql) w2 of
                     ((evs, Some message), w3) \<Rightarrow>
                       ([DbOpen (js '':memory:''), DbRun createTableSql] @ open_callback open_err
                          @ evs @ catch_block message @ [DbClose],
                        db_close drv db w3)
                   | ((evs, None), w3) \<Rightarrow>
                       (case db_all drv db sqlQuery w3 of
                          (r, w4) \<Rightarrow>
                            ([DbOpen (js '':memory:''), DbRun createTableSql]
                               @ open_callback open_err @ evs
                               @ [DbAll sqlQuery, DbClose, query_callback r],
                             db_close drv db w4))))))"

text \<open>
  \<open>fails_at drv db stmts w n msg\<close>: when the driver runs \<open>stmts\<close> one after the other on \<open>db\<close>,
  starting in world \<open>w\<close>, the statement at position \<open>n\<close> (counted from 0) is the first one
  it reports an error for, and \<open>msg\<close> is the message of that error.
\<close>

fun fails_at ::
  "('w, 'h, 'row) driver \<Rightarrow> 'h \<Rightarrow> jsval list \<Rightarrow> 'w \<Rightarrow> nat \<Rightarrow> jsstring \<Rightarrow> bool"
where
  "fails_at drv db [] w n msg = False"
| "fails_at drv db (s # ss) w 0 msg = (fst (db_run drv db s w) = Some msg)"
| "fails_at drv db (s # ss) w (Suc n) msg =
     (case db_run drv db s w of
        (None, w') \<Rightarrow> fails_at drv db ss w' n msg
      | (Some e, w') \<Rightarrow> False)"




section \<open>The synthesis handler: POST /api/generate-sql\<close>

text \<open>
  \<^verbatim>\<open>String.prototype.trim\<close> removes the white space and line terminator code units of
  ECMAScript from both ends: TAB, LF, VT, FF, CR, SP, NBSP, the other space separators
  (U+1680, U+2000 to U+200A, U+202F, U+205F, U+3000), LS, PS and U+FEFF.
\<close>

definition is_space :: "nat \<Rightarrow> bool" where
  "is_space c \<longleftrightarrow>
     c \<in> set [9, 10, 11, 12, 13, 32, 160, 5760, 8232, 8233, 8239, 8287, 12288, 65279]
     \<or> (8192 \<le> c \<and> c \<le> 8202)"

definition trim :: "jsstring \<Rightarrow> jsstring" where
  "trim s = rev (dropWhile is_space (rev (dropWhile is_space s)))"

text \<open>The fence marker: three backticks (code unit 96).\<close>

definition fence :: jsstring where
  "fence = [96, 96, 96]"

text \<open>\<^verbatim>\<open>s.startsWith(p)\<close>\<close>

definition startsWith :: "jsstring \<Rightarrow> jsstring \<Rightarrow> bool" where
  "startsWith s p = prefix p s"

text \<open>The class \<^verbatim>\<open>[a-z]\<close> under the flag \<^verbatim>\<open>i\<close>: the ASCII letters.\<close>

definition is_letter :: "nat \<Rightarrow> bool" where
  "is_letter c \<longleftrightarrow> (65 \<le> c \<and> c \<le> 90) \<or> (97 \<le> c \<and> c \<le> 122)"

text \<open>
  Line 91, \<^verbatim>\<open>s.replace(/^```[a-z]*\n?/i, '')\<close>: at the start of \<open>s\<close>, the marker, then as
  many letters as follow, then one line feed (code unit 10) if it comes next, are removed;
  \<open>s\<close> is returned as it is when it does not start with the marker.
\<close>

definition strip_opening :: "jsstring \<Rightarrow> jsstring" where
  "strip_opening s =
     (if prefix fence s then
        (case dropWhile is_letter (drop 3 s) of
           [] \<Rightarrow> []
         | c # r \<Rightarrow> if c = 10 then r else c # r)
      else s)"

text \<open>
  Line 93, \<^verbatim>\<open>s.replace(/\n?```$/, '')\<close>: without the flag \<^verbatim>\<open>m\<close>, \<^verbatim>\<open>$\<close> is the end of \<open>s\<close>, so
  the only matches are a marker that ends \<open>s\<close>, with or without a line feed before it; the
  leftmost one (the one with the line feed) is removed.
\<close>

definition strip_closing :: "jsstring \<Rightarrow> jsstring" where
  "strip_closing s =
     (if suffix (10 # fence) s then take (length s - 4) s
      else if suffix fence s then take (length s - 3) s
      else s)"

text \<open>Lines 88-94: the text handed to \<^verbatim>\<open>JSON.parse\<close>.\<close>

definition clean_text :: "jsstring \<Rightarrow> jsstring" where
  "clean_text text =
     (let cleanedText = trim text in
      if startsWith cleanedText fence then strip_closing (strip_opening cleanedText)
      else cleanedText)"

text \<open>
  What the handler is given from outside:
  \<^item> \<open>gemini_prompt p\<close>: the template literal of lines 51-75 with \<^verbatim>\<open>${prompt}\<close> filled in;
  \<^item> \<open>generateContent s\<close>: the text of the model's answer to \<open>s\<close> (lines 79-81), or \<open>None\<close>
    when the call throws or rejects;
  \<^item> \<open>json_parse s\<close>: \<^verbatim>\<open>JSON.parse(s)\<close>, \<open>None\<close> when it throws.
\<close>

record synthesis_env =
  gemini_prompt :: "jsval \<Rightarrow> jsstring"
  generateContent :: "jsstring \<Rightarrow> jsstring option"
  json_parse :: "jsstring \<Rightarrow> jsval option"

datatype reply_body =
    ErrorReply jsstring
  | Generated jsval jsval jsval

datatype synthesis_event =
    Generate jsstring
  | JsonParse jsstring
  | Reply nat reply_body

text \<open>
  Reading one of the properties \<^verbatim>\<open>sqlQuery\<close>, \<^verbatim>\<open>createTableSql\<close>, \<^verbatim>\<open>insertDataSql\<close> of a
  parsed value that is neither null nor undefined: only an object can have them (its
  keys are distinct).
\<close>

fun property :: "jsval \<Rightarrow> jsstring \<Rightarrow> jsval" where
  "property (Obj kvs) k = (case map_of kvs k of Some v \<Rightarrow> v | None \<Rightarrow> Undefined)"
| "property v k = Undefined"

text \<open>
  The handler (lines 38-112). Destructuring \<^verbatim>\<open>null\<close> (line 103) throws, which the outer
  \<^verbatim>\<open>catch\<close> answers like a failed call of the model.
\<close>

definition generate_sql :: "synthesis_env \<Rightarrow> jsobject \<Rightarrow> synthesis_event list" where
  "generate_sql env body =
     (let prompt = body (js ''prompt'') in
      if \<not> truthy prompt then [Reply 400 (ErrorReply (js ''Prompt is required.''))]
      else
        (let geminiPrompt = gemini_prompt env prompt in
         Generate geminiPrompt #
         (case generateContent env geminiPrompt of
            None \<Rightarrow> [Reply 500 (ErrorReply (js ''Failed to generate SQL. Please try again.''))]
          | Some text \<Rightarrow>
              (let cleanedText = clean_text text in
               JsonParse cleanedText #
               (case json_parse env cleanedText of
                  None \<Rightarrow>
                    [Reply 500 (ErrorReply
                       (js ''Failed to parse Gemini response. It might not be valid JSON.''))]
                | Some parsedResponse \<Rightarrow>
                    (if parsedResponse = Null \<or> parsedResponse = Undefined
                     then [Reply 500 (ErrorReply (js ''Failed to generate SQL. Please try again.''))]
                     else [Reply 200 (Generated
                             (property parsedResponse (js ''sqlQuery''))
                             (property parsedResponse (js ''createTableSql''))
                             (property parsedResponse (js ''insertDataSql'')))]))))))"

section \<open>The origin check of the CORS middleware\<close>

text \<open>
  The cors middleware is a library. The repository gives it the function of lines 20-26,
  which is called with the \<^verbatim>\<open>Origin\<close> header of the request (\<open>Undefined\<close> when there is
  none) and answers through its callback: \<^verbatim>\<open>callback(null, true)\<close> lets the request
  through, \<^verbatim>\<open>callback(new Error(...))\<close> ends it with that error. The allow-list of lines
  15-18 is a parameter: its first entry is not a string literal in the source.
\<close>

datatype origin_answer =
    Allowed
  | NotAllowed jsstring

definition cors_origin :: "jsstring list \<Rightarrow> jsval \<Rightarrow> origin_answer" where
  "cors_origin allowedOrigins origin =
     (if \<not> truthy origin \<or> origin \<in> Str ` set allowedOrigins then Allowed
      else NotAllowed (js ''Not allowed by CORS''))"

section \<open>Example drivers and requests\<close>

text \<open>
  A small driver with private databases. The world is the list of the databases opened
  so far, a database is the list of the statements it has accepted, a handle is a
  position in the world. A statement must begin with CREATE or INSERT and is refused the
  second time; a query must begin with SELECT and gives the accepted statements as rows.
\<close>

definition is_statement :: "jsval \<Rightarrow> bool" where
  "is_statement sql =
     (case sql of
        Str s \<Rightarrow> prefix (js ''CREATE'') s \<or> prefix (js ''INSERT'') s
      | _ \<Rightarrow> False)"

definition is_query :: "jsval \<Rightarrow> bool" where
  "is_query sql = (case sql of Str s \<Rightarrow> prefix (js ''SELECT'') s | _ \<Rightarrow> False)"

definition toy :: "(jsval list list, nat, jsval) driver" where
  "toy =
     \<lparr> db_open = (\<lambda>f w. ((None, length w), w @ [[]])),
       db_run = (\<lambda>db sql w.
         if \<not> is_statement sql then (Some (js ''SQLITE_ERROR: syntax error''), w)
         else if sql \<in> set (w ! db)
           then (Some (js ''SQLITE_CONSTRAINT: UNIQUE constraint failed: t.id''), w)
         else (None, w[db := w ! db @ [sql]])),
       db_all = (\<lambda>db sql w.
         if is_query sql then (Inr (w ! db), w)
         else (Inl (js ''SQLITE_ERROR: syntax error''), w)),
       db_close = (\<lambda>db w. w[db := []]) \<rparr>"




text \<open>The body \<^verbatim>\<open>{sqlQuery: q, createTableSql: c, insertDataSql: i}\<close>.\<close>

definition request :: "jsval \<Rightarrow> jsval \<Rightarrow> jsval \<Rightarrow> jsobject" where
  "request q c i =
     (\<lambda>k. if k = js ''sqlQuery'' then q
          else if k = js ''createTableSql'' then c
          else if k = js ''insertDataSql'' then i
          else Undefined)"

text \<open>A synthesis environment whose model answers every prompt with the same text.\<close>

definition echo_env :: "jsstring \<Rightarrow> synthesis_env" where
  "echo_env answer =
     \<lparr> gemini_prompt = (\<lambda>p. case p of Str s \<Rightarrow> js ''Natural language request: '' @ s | _ \<Rightarrow> []),
       generateContent = (\<lambda>s. Some answer),
       json_parse = (\<lambda>s. if s = js ''{}'' then Some (Obj []) else None) \<rparr>"

text \<open>
  A request whose second insert statement repeats the first, so that \<open>toy\<close> refuses it.
\<close>

definition dup_request :: jsobject where
  "dup_request =
     request (Str (js ''SELECT * FROM t''))
       (Str (js ''CREATE TABLE t (id INTEGER PRIMARY KEY)''))
       (Arr [Str (js ''INSERT INTO t VALUES (1)''), Str (js ''INSERT INTO t VALUES (1)''),
             Str (js ''INSERT INTO t VALUES (2)'')])"

text \<open>Further requests: a table definition \<open>toy\<close> refuses, a well-formed request, the
  same with one more key in the body, one without insert statements, one without a query
  and one whose query is the empty string.\<close>

definition bad_schema_request :: jsobject where
  "bad_schema_request =
     request (Str (js ''SELECT * FROM t'')) (Str (js ''DROP TABLE t''))
       (Arr [Str (js ''INSERT INTO t VALUES (1)'')])"

definition good_request :: jsobject where
  "good_request =
     request (Str (js ''SELECT * FROM t'')) (Str (js ''CREATE TABLE t (id INTEGER)''))
       (Arr [Str (js ''INSERT INTO t VALUES (1)'')])"


definition no_seed_request :: jsobject where
  "no_seed_request =
     request (Str (js ''SELECT * FROM t'')) (Str (js ''CREATE TABLE t (id INTEGER)'')) (Arr [])"

definition no_query_request :: jsobject where
  "no_query_request =
     request Undefined (Str (js ''CREATE TABLE t (id INTEGER)''))
       (Arr [Str (js ''INSERT INTO t VALUES (1)'')])"

definition empty_query_request :: jsobject where
  "empty_query_request =
     request (Str []) (Str (js ''CREATE TABLE t (id INTEGER)''))
       (Arr [Str (js ''INSERT INTO t VALUES (1)'')])"



text \<open>The body \<^verbatim>\<open>{prompt: p}\<close>.\<close>

definition prompt_body :: "jsval \<Rightarrow> jsobject" where
  "prompt_body p = (\<lambda>k. if k = js ''prompt'' then p else Undefined)"

text \<open>
  Two answers of the model: the object \<^verbatim>\<open>{}\<close> in a fenced block tagged \<^verbatim>\<open>json\<close>, with white
  space around it, and the bare object with white space around it.
\<close>

definition fenced_answer :: jsstring where
  "fenced_answer = js ''  '' @ fence @ js ''json'' @ [10] @ js ''{}'' @ [10] @ fence @ [10]"

definition bare_answer :: jsstring where
  "bare_answer = js '' {} ''"

text \<open>The allow-list of lines 15-18 with its first entry read as a string.\<close>

definition intended_origins :: "jsstring list" where
  "intended_origins = [js ''https://sqlchatbotnew.netlify.app/'', js ''http://localhost:5173'']"

section \<open>Facts about the loop over the insert statements\<close>

lemmas toy_simps = toy_def is_statement_def is_query_def request_def rejects_def js_def

lemma js_eq_Nil: "js s = [] \<longleftrightarrow> s = []"
  by (simp add: js_def)

lemma run_inserts_fails_at:
  "fails_at drv db ss w n msg \<Longrightarrow>
   fst (run_inserts drv db ss w) =
     (map DbRun (take (Suc n) ss), Some (js ''Failed to insert data: '' @ msg))"
proof (induction ss arbitrary: w n)
  case Nil
  then show ?case by simp
next
  case (Cons s ss)
  show ?case
  proof (cases n)
    case 0
    with Cons.prems show ?thesis
      by (cases "db_run drv db s w") auto
  next
    case (Suc k)
    with Cons.prems obtain w' where run: "db_run drv db s w = (None, w')"
      and rest: "fails_at drv db ss w' k msg"
      by (cases "db_run drv db s w") (auto split: option.splits)
    from Cons.IH [OF rest] run Suc show ?thesis
      by (cases "run_inserts drv db ss w'") auto
  qed
qed

text \<open>The loop calls nothing but \<^verbatim>\<open>db.run\<close>, on a first part of the statements.\<close>

lemma run_inserts_events:
  "\<exists>k. fst (fst (run_inserts drv db ss w)) = map DbRun (take k ss)"
proof (induction ss arbitrary: w)
  case Nil
  then show ?case by simp
next
  case (Cons s ss)
  obtain e w' where run: "db_run drv db s w = (e, w')"
    by (cases "db_run drv db s w")
  show ?case
  proof (cases e)
    case (Some msg)
    with run have "fst (fst (run_inserts drv db (s # ss) w)) = map DbRun (take 1 (s # ss))"
      by simp
    then show ?thesis by blast
  next
    case None
    from Cons.IH [of w'] obtain k where
      k: "fst (fst (run_inserts drv db ss w')) = map DbRun (take k ss)" by blast
    with run None
    have "fst (fst (run_inserts drv db (s # ss) w)) = map DbRun (take (Suc k) (s # ss))"
      by (cases "run_inserts drv db ss w'") auto
    then show ?thesis by blast
  qed
qed

text \<open>The message of a rejection is never empty, so the \<^verbatim>\<open>catch\<close> block sends it as it is.\<close>

lemma run_inserts_message_nonempty:
  "fst (run_inserts drv db ss w) = (evs, Some message) \<Longrightarrow> message \<noteq> []"
proof (induction ss arbitrary: w evs)
  case Nil
  then show ?case by simp
next
  case (Cons s ss)
  obtain e w' where run: "db_run drv db s w = (e, w')"
    by (cases "db_run drv db s w")
  show ?case
  proof (cases e)
    case (Some msg)
    with run Cons.prems show ?thesis by (auto simp: js_eq_Nil)
  next
    case None
    obtain evs' r w'' where rest: "run_inserts drv db ss w' = ((evs', r), w'')"
      by (cases "run_inserts drv db ss w'") auto
    with run None Cons.prems have "r = Some message" by simp
    with Cons.IH [of w' evs'] rest show ?thesis by simp
  qed
qed

section \<open>Failure of an insert statement\<close>

text \<open>
  Claim C1, as amended. For every execution request that passes the validation: if the
  statement at position \<open>n\<close> of \<^verbatim>\<open>insertDataSql\<close> (the N-th for N = n + 1) is the first one
  the driver reports an error for, the handler runs the table definition and the first N
  insert statements and no other, never calls \<^verbatim>\<open>db.all\<close>, sends status 500 with the error
  text \<^verbatim>\<open>Failed to insert data: \<close> followed by the message of the driver, and closes the
  database. The error text holds nothing else: neither the position nor the statement.
  (\<open>open_callback open_err\<close> is empty when the database opened without error.)
\<close>

theorem seed_failure_stops_pipeline:
  assumes "\<not> rejects body"
    and "db_open drv (js '':memory:'') w = ((open_err, db), w1)"
    and "db_run drv db (body (js ''createTableSql'')) w1 = (None, w2)"
    and "fails_at drv db (elements (body (js ''insertDataSql''))) w2 n msg"
  shows "fst (execute_sql drv body w) =
     [DbOpen (js '':memory:''), DbRun (body (js ''createTableSql''))] @ open_callback open_err
       @ map DbRun (take (Suc n) (elements (body (js ''insertDataSql''))))
       @ [Send 500 (ErrorBody (js ''Failed to insert data: '' @ msg)), DbClose]"
proof -
  obtain w3 where "run_inserts drv db (elements (body (js ''insertDataSql''))) w2 =
      ((map DbRun (take (Suc n) (elements (body (js ''insertDataSql'')))),
        Some (js ''Failed to insert data: '' @ msg)), w3)"
    using run_inserts_fails_at [OF assms(4)]
    by (cases "run_inserts drv db (elements (body (js ''insertDataSql''))) w2") auto
  with assms(1-3) show ?thesis
    by (simp add: execute_sql_def Let_def catch_block_def js_eq_Nil)
qed

text \<open>
  The theorem at \<open>dup_request\<close> on \<open>toy\<close>: the second insert statement fails, the third is
  never run.
\<close>

theorem seed_failure_stops_pipeline_witness:
  "\<not> rejects dup_request \<and>
   db_open toy (js '':memory:'') [] = ((None, 0), [[]]) \<and>
   db_run toy 0 (dup_request (js ''createTableSql'')) [[]]
     = (None, [[Str (js ''CREATE TABLE t (id INTEGER PRIMARY KEY)'')]]) \<and>
   fails_at toy 0 (elements (dup_request (js ''insertDataSql'')))
     [[Str (js ''CREATE TABLE t (id INTEGER PRIMARY KEY)'')]] 1
     (js ''SQLITE_CONSTRAINT: UNIQUE constraint failed: t.id'') \<and>
   fst (execute_sql toy dup_request []) =
     [DbOpen (js '':memory:''), DbRun (Str (js ''CREATE TABLE t (id INTEGER PRIMARY KEY)'')),
      DbRun (Str (js ''INSERT INTO t VALUES (1)'')), DbRun (Str (js ''INSERT INTO t VALUES (1)'')),
      Send 500 (ErrorBody
        (js ''Failed to insert data: SQLITE_CONSTRAINT: UNIQUE constraint failed: t.id'')),
      DbClose]"
proof -
  have v: "\<not> rejects dup_request"
    by (simp add: dup_request_def toy_simps)
  have op: "db_open toy (js '':memory:'') [] = ((None, 0), [[]])"
    by (simp add: toy_def)
  have cr: "db_run toy 0 (dup_request (js ''createTableSql'')) [[]]
     = (None, [[Str (js ''CREATE TABLE t (id INTEGER PRIMARY KEY)'')]])"
    by (simp add: dup_request_def toy_simps)
  have fl: "fails_at toy 0 (elements (dup_request (js ''insertDataSql'')))
     [[Str (js ''CREATE TABLE t (id INTEGER PRIMARY KEY)'')]] 1
     (js ''SQLITE_CONSTRAINT: UNIQUE constraint failed: t.id'')"
    by (simp add: dup_request_def toy_simps)
  from seed_failure_stops_pipeline [OF v op cr fl] v op cr fl show ?thesis
    by (simp add: dup_request_def request_def open_callback_def js_def)
qed

text \<open>
  Claim C1 as stated fails: when the second insert statement of \<open>dup_request\<close> fails, the
  error text that is sent holds neither the position 2 nor the text of the statement.
\<close>

theorem seed_error_names_no_statement:
  "fst (execute_sql toy dup_request []) =
     [DbOpen (js '':memory:''), DbRun (Str (js ''CREATE TABLE t (id INTEGER PRIMARY KEY)'')),
      DbRun (Str (js ''INSERT INTO t VALUES (1)'')), DbRun (Str (js ''INSERT INTO t VALUES (1)'')),
      Send 500 (ErrorBody
        (js ''Failed to insert data: SQLITE_CONSTRAINT: UNIQUE constraint failed: t.id'')),
      DbClose] \<and>
   \<not> sublist (js ''2'')
     (js ''Failed to insert data: SQLITE_CONSTRAINT: UNIQUE constraint failed: t.id'') \<and>
   \<not> sublist (js ''INSERT INTO t VALUES (1)'')
     (js ''Failed to insert data: SQLITE_CONSTRAINT: UNIQUE constraint failed: t.id'')"
proof -
  have "fst (execute_sql toy dup_request []) =
     [DbOpen (js '':memory:''), DbRun (Str (js ''CREATE TABLE t (id INTEGER PRIMARY KEY)'')),
      DbRun (Str (js ''INSERT INTO t VALUES (1)'')), DbRun (Str (js ''INSERT INTO t VALUES (1)'')),
      Send 500 (ErrorBody
        (js ''Failed to insert data: SQLITE_CONSTRAINT: UNIQUE constraint failed: t.id'')),
      DbClose]"
    by (simp add: execute_sql_def Let_def dup_request_def toy_simps open_callback_def
        catch_block_def)
  moreover have "\<not> sublist (js ''2'')
     (js ''Failed to insert data: SQLITE_CONSTRAINT: UNIQUE constraint failed: t.id'')"
    by (simp add: js_def sublist_Cons_right)
  moreover have "\<not> sublist (js ''INSERT INTO t VALUES (1)'')
     (js ''Failed to insert data: SQLITE_CONSTRAINT: UNIQUE constraint failed: t.id'')"
    by (simp add: js_def sublist_Cons_right)
  ultimately show ?thesis by blast
qed

section \<open>Failure of the table definition\<close>

text \<open>
  Claim C2. For every execution request that passes the validation: if the driver reports
  an error for the table-definition statement, no insert statement is run (the only
  \<^verbatim>\<open>db.run\<close> is the one of the table definition), \<^verbatim>\<open>db.all\<close> is never called, and the
  handler sends status 500 with the error text \<^verbatim>\<open>Failed to create table: \<close> followed by
  the message of the driver, then closes the database. (\<open>open_callback open_err\<close> is
  empty when the database opened without error.)
\<close>

theorem create_table_failure_stops_pipeline:
  assumes "\<not> rejects body"
    and "db_open drv (js '':memory:'') w = ((open_err, db), w1)"
    and "fst (db_run drv db (body (js ''createTableSql'')) w1) = Some msg"
  shows "fst (execute_sql drv body w) =
     [DbOpen (js '':memory:''), DbRun (body (js ''createTableSql''))] @ open_callback open_err
       @ [Send 500 (ErrorBody (js ''Failed to create table: '' @ msg)), DbClose]"
proof -
  obtain w2 where "db_run drv db (body (js ''createTableSql'')) w1 = (Some msg, w2)"
    using assms(3) by (cases "db_run drv db (body (js ''createTableSql'')) w1") auto
  with assms(1,2) show ?thesis
    by (simp add: execute_sql_def Let_def catch_block_def js_eq_Nil)
qed

text \<open>The theorem at \<open>bad_schema_request\<close> on \<open>toy\<close>.\<close>

theorem create_table_failure_stops_pipeline_witness:
  "\<not> rejects bad_schema_request \<and>
   db_open toy (js '':memory:'') [] = ((None, 0), [[]]) \<and>
   fst (db_run toy 0 (bad_schema_request (js ''createTableSql'')) [[]])
     = Some (js ''SQLITE_ERROR: syntax error'') \<and>
   fst (execute_sql toy bad_schema_request []) =
     [DbOpen (js '':memory:''), DbRun (Str (js ''DROP TABLE t'')),
      Send 500 (ErrorBody (js ''Failed to create table: SQLITE_ERROR: syntax error'')),
      DbClose]"
proof -
  have v: "\<not> rejects bad_schema_request"
    by (simp add: bad_schema_request_def toy_simps)
  have op: "db_open toy (js '':memory:'') [] = ((None, 0), [[]])"
    by (simp add: toy_def)
  have cr: "fst (db_run toy 0 (bad_schema_request (js ''createTableSql'')) [[]])
     = Some (js ''SQLITE_ERROR: syntax error'')"
    by (simp add: bad_schema_request_def toy_simps)
  from create_table_failure_stops_pipeline [OF v op cr] v op cr show ?thesis
    by (simp add: bad_schema_request_def request_def open_callback_def js_def)
qed

section \<open>Closing the database\<close>

text \<open>
  Claim C3, as amended. For every execution request that passes the validation, the
  handler calls \<^verbatim>\<open>db.close\<close> exactly once, on the database object it opened, on every path:
  either the query was submitted, and then the trace ends with the call of \<^verbatim>\<open>db.all\<close>, the
  call of \<^verbatim>\<open>db.close\<close> and the response of the query callback (rows or query error), in
  this order; or no query was submitted (the table definition or an insert statement
  failed), and then the trace ends with the error response followed by the call of
  \<^verbatim>\<open>db.close\<close>.
\<close>

theorem close_on_every_path:
  assumes "\<not> rejects body"
  shows "\<exists>pre st b w'.
     DbClose \<notin> set pre \<and>
     snd (execute_sql drv body w) = db_close drv (snd (fst (db_open drv (js '':memory:'') w))) w' \<and>
     (fst (execute_sql drv body w) = pre @ [DbAll (body (js ''sqlQuery'')), DbClose, Send st b]
      \<or> (\<forall>q. DbAll q \<notin> set pre) \<and> fst (execute_sql drv body w) = pre @ [Send 500 b, DbClose])"
proof -
  obtain open_err db w1 where op: "db_open drv (js '':memory:'') w = ((open_err, db), w1)"
    by (cases "db_open drv (js '':memory:'') w") auto
  obtain e w2 where cr: "db_run drv db (body (js ''createTableSql'')) w1 = (e, w2)"
    by (cases "db_run drv db (body (js ''createTableSql'')) w1")
  let ?head = "[DbOpen (js '':memory:''), DbRun (body (js ''createTableSql''))] @ open_callback open_err"
  have head: "DbClose \<notin> set ?head" "\<forall>q. DbAll q \<notin> set ?head"
    by (auto simp: open_callback_def split: option.splits)
  show ?thesis
  proof (cases e)
    case (Some msg)
    with assms op cr have
      "fst (execute_sql drv body w) =
         ?head @ [Send 500 (ErrorBody (js ''Failed to create table: '' @ msg)), DbClose]"
      "snd (execute_sql drv body w) = db_close drv db w2"
      by (simp_all add: execute_sql_def Let_def catch_block_def js_eq_Nil)
    with head op show ?thesis by fastforce
  next
    case None
    obtain evs r w3 where ins:
      "run_inserts drv db (elements (body (js ''insertDataSql''))) w2 = ((evs, r), w3)"
      by (cases "run_inserts drv db (elements (body (js ''insertDataSql''))) w2") auto
    from run_inserts_events [of drv db "elements (body (js ''insertDataSql''))" w2] ins
    obtain k where evs: "evs = map DbRun (take k (elements (body (js ''insertDataSql''))))"
      by auto
    have pre: "DbClose \<notin> set (?head @ evs)" "\<forall>q. DbAll q \<notin> set (?head @ evs)"
      using head evs by auto
    show ?thesis
    proof (cases r)
      case (Some message)
      with ins have "fst (run_inserts drv db (elements (body (js ''insertDataSql''))) w2)
          = (evs, Some message)" by simp
      then have "message \<noteq> []" by (rule run_inserts_message_nonempty)
      with assms op cr None ins Some have
        "fst (execute_sql drv body w) = (?head @ evs) @ [Send 500 (ErrorBody message), DbClose]"
        "snd (execute_sql drv body w) = db_close drv db w3"
        by (simp_all add: execute_sql_def Let_def catch_block_def)
      with pre op show ?thesis by (metis fst_conv snd_conv)
    next
      case rNone: None
      obtain res w4 where q: "db_all drv db (body (js ''sqlQuery'')) w3 = (res, w4)"
        by (cases "db_all drv db (body (js ''sqlQuery'')) w3")
      obtain st b where cb: "query_callback res = Send st b"
        by (cases res) (auto simp: query_callback_def)
      with assms op cr None ins rNone q have
        "fst (execute_sql drv body w) =
           (?head @ evs) @ [DbAll (body (js ''sqlQuery'')), DbClose, Send st b]"
        "snd (execute_sql drv body w) = db_close drv db w4"
        by (simp_all add: execute_sql_def Let_def)
      with pre op show ?thesis by (metis fst_conv snd_conv)
    qed
  qed
qed

text \<open>The theorem at a request that succeeds and at one whose table definition fails.\<close>

theorem close_on_every_path_witness:
  "\<not> rejects good_request \<and> \<not> rejects bad_schema_request \<and>
   (\<exists>pre st b w'.
     DbClose \<notin> set pre \<and>
     snd (execute_sql toy good_request [])
       = db_close toy (snd (fst (db_open toy (js '':memory:'') []))) w' \<and>
     (fst (execute_sql toy good_request [])
        = pre @ [DbAll (good_request (js ''sqlQuery'')), DbClose, Send st b]
      \<or> (\<forall>q. DbAll q \<notin> set pre) \<and>
        fst (execute_sql toy good_request []) = pre @ [Send 500 b, DbClose])) \<and>
   (\<exists>pre st b w'.
     DbClose \<notin> set pre \<and>
     snd (execute_sql toy bad_schema_request [])
       = db_close toy (snd (fst (db_open toy (js '':memory:'') []))) w' \<and>
     (fst (execute_sql toy bad_schema_request [])
        = pre @ [DbAll (bad_schema_request (js ''sqlQuery'')), DbClose, Send st b]
      \<or> (\<forall>q. DbAll q \<notin> set pre) \<and>
        fst (execute_sql toy bad_schema_request []) = pre @ [Send 500 b, DbClose]))"
proof -
  have g: "\<not> rejects good_request"
    by (simp add: good_request_def toy_simps)
  have b: "\<not> rejects bad_schema_request"
    by (simp add: bad_schema_request_def toy_simps)
  from close_on_every_path [OF g, of toy "[]"] close_on_every_path [OF b, of toy "[]"] g b
  show ?thesis by blast
qed

text \<open>
  Claim C3 as stated fails: when the table definition of \<open>bad_schema_request\<close> fails, the
  error response is sent in the \<^verbatim>\<open>catch\<close> block, before \<^verbatim>\<open>finally\<close> calls \<^verbatim>\<open>db.close\<close>.
\<close>

theorem close_follows_error_response:
  "fst (execute_sql toy bad_schema_request []) =
     [DbOpen (js '':memory:''), DbRun (Str (js ''DROP TABLE t'')),
      Send 500 (ErrorBody (js ''Failed to create table: SQLITE_ERROR: syntax error'')),
      DbClose]"
  by (simp add: execute_sql_def Let_def bad_schema_request_def toy_simps open_callback_def
      catch_block_def)

section \<open>The number of responses\<close>




section \<open>Validation of an execution request\<close>

text \<open>
  Claim C5. For every execution request in which \<^verbatim>\<open>sqlQuery\<close>, \<^verbatim>\<open>createTableSql\<close> or
  \<^verbatim>\<open>insertDataSql\<close> is missing, or \<^verbatim>\<open>insertDataSql\<close> is not an array, the handler sends
  status 400 and does nothing else: no database is opened and the world of the driver is
  unchanged. An empty array of insert statements passes the validation (the other two
  fields being truthy): the handler goes on to open the database.
\<close>

theorem missing_field_rejected:
  "(body (js ''sqlQuery'') = Undefined \<or> body (js ''createTableSql'') = Undefined
      \<or> body (js ''insertDataSql'') = Undefined \<or> \<not> isArray (body (js ''insertDataSql''))
    \<longrightarrow> execute_sql drv body w =
      ([Send 400 (ErrorBody
          (js ''SQL query, CREATE TABLE statement, and INSERT data are required.''))], w)) \<and>
   (truthy (body (js ''sqlQuery'')) \<and> truthy (body (js ''createTableSql''))
      \<and> body (js ''insertDataSql'') = Arr []
    \<longrightarrow> \<not> rejects body \<and>
      (\<exists>evs w'. execute_sql drv body w = (DbOpen (js '':memory:'') # evs, w')))"
proof (intro conjI impI)
  assume "body (js ''sqlQuery'') = Undefined \<or> body (js ''createTableSql'') = Undefined
      \<or> body (js ''insertDataSql'') = Undefined \<or> \<not> isArray (body (js ''insertDataSql''))"
  then have "rejects body"
    by (auto simp: rejects_def Let_def)
  then show "execute_sql drv body w =
      ([Send 400 (ErrorBody
          (js ''SQL query, CREATE TABLE statement, and INSERT data are required.''))], w)"
    by (simp add: execute_sql_def Let_def)
next
  assume a: "truthy (body (js ''sqlQuery'')) \<and> truthy (body (js ''createTableSql''))
      \<and> body (js ''insertDataSql'') = Arr []"
  then show v: "\<not> rejects body"
    by (simp add: rejects_def Let_def)
  then show "\<exists>evs w'. execute_sql drv body w = (DbOpen (js '':memory:'') # evs, w')"
    by (simp add: execute_sql_def Let_def split: prod.splits option.splits)
qed

text \<open>The theorem at a request without a query and at one with no insert statement.\<close>

theorem missing_field_rejected_witness:
  "no_query_request (js ''sqlQuery'') = Undefined \<and>
   execute_sql toy no_query_request [] =
      ([Send 400 (ErrorBody
          (js ''SQL query, CREATE TABLE statement, and INSERT data are required.''))], []) \<and>
   truthy (no_seed_request (js ''sqlQuery'')) \<and> truthy (no_seed_request (js ''createTableSql'')) \<and>
   no_seed_request (js ''insertDataSql'') = Arr [] \<and>
   \<not> rejects no_seed_request \<and>
   (\<exists>evs w'. execute_sql toy no_seed_request [] = (DbOpen (js '':memory:'') # evs, w'))"
proof -
  have a: "no_query_request (js ''sqlQuery'') = Undefined"
    by (simp add: no_query_request_def request_def)
  have q: "truthy (no_seed_request (js ''sqlQuery''))"
    and c: "truthy (no_seed_request (js ''createTableSql''))"
    and i: "no_seed_request (js ''insertDataSql'') = Arr []"
    by (simp_all add: no_seed_request_def request_def js_def)
  from missing_field_rejected [of no_query_request toy "[]"]
    missing_field_rejected [of no_seed_request toy "[]"] a q c i
  show ?thesis by simp
qed

text \<open>
  Claim C10. For every execution request in which \<^verbatim>\<open>sqlQuery\<close> or \<^verbatim>\<open>createTableSql\<close> is
  present but the empty string, the handler sends status 400 and does nothing else: no
  database is opened and the world of the driver is unchanged.
\<close>

theorem empty_string_field_rejected:
  assumes "body (js ''sqlQuery'') = Str [] \<or> body (js ''createTableSql'') = Str []"
  shows "execute_sql drv body w =
      ([Send 400 (ErrorBody
          (js ''SQL query, CREATE TABLE statement, and INSERT data are required.''))], w)"
proof -
  from assms have "rejects body"
    by (auto simp: rejects_def Let_def)
  then show ?thesis
    by (simp add: execute_sql_def Let_def)
qed

text \<open>The theorem at a request whose query is the empty string.\<close>

theorem empty_string_field_rejected_witness:
  "empty_query_request (js ''sqlQuery'') = Str [] \<and>
   execute_sql toy empty_query_request [] =
      ([Send 400 (ErrorBody
          (js ''SQL query, CREATE TABLE statement, and INSERT data are required.''))], [])"
proof -
  have a: "empty_query_request (js ''sqlQuery'') = Str []"
    by (simp add: empty_query_request_def request_def)
  then have "empty_query_request (js ''sqlQuery'') = Str []
      \<or> empty_query_request (js ''createTableSql'') = Str []" by simp
  from empty_string_field_rejected [OF this, of toy "[]"] a show ?thesis by simp
qed

section \<open>Requests with the same artifacts\<close>









section \<open>The synthesis handler\<close>

text \<open>
  Claim C6. For every synthesis request whose \<^verbatim>\<open>prompt\<close> is absent or the empty string, the
  handler sends status 400 and does nothing else: the model is never called.
\<close>

theorem empty_prompt_rejected:
  assumes "body (js ''prompt'') = Undefined \<or> body (js ''prompt'') = Str []"
  shows "generate_sql env body = [Reply 400 (ErrorReply (js ''Prompt is required.''))]"
  using assms by (auto simp: generate_sql_def Let_def)

text \<open>The theorem at a body with an empty prompt and at a body without one.\<close>

theorem empty_prompt_rejected_witness:
  "prompt_body (Str []) (js ''prompt'') = Str [] \<and>
   generate_sql (echo_env (js ''{}'')) (prompt_body (Str []))
     = [Reply 400 (ErrorReply (js ''Prompt is required.''))] \<and>
   prompt_body Undefined (js ''prompt'') = Undefined \<and>
   generate_sql (echo_env (js ''{}'')) (prompt_body Undefined)
     = [Reply 400 (ErrorReply (js ''Prompt is required.''))]"
proof -
  have a: "prompt_body (Str []) (js ''prompt'') = Str []"
    and b: "prompt_body Undefined (js ''prompt'') = Undefined"
    by (simp_all add: prompt_body_def)
  from a have a': "prompt_body (Str []) (js ''prompt'') = Undefined
      \<or> prompt_body (Str []) (js ''prompt'') = Str []" by simp
  from b have b': "prompt_body Undefined (js ''prompt'') = Undefined
      \<or> prompt_body Undefined (js ''prompt'') = Str []" by simp
  from empty_prompt_rejected [of "prompt_body (Str [])" "echo_env (js ''{}'')"]
    empty_prompt_rejected [of "prompt_body Undefined" "echo_env (js ''{}'')"] a' b' a b
  show ?thesis by blast
qed

lemma not_letter: "\<not> is_letter 96" "\<not> is_letter 10"
  by (simp_all add: is_letter_def)

lemma strip_opening_tag:
  assumes "list_all is_letter tag"
  shows "strip_opening (fence @ tag @ 10 # rest) = rest"
proof -
  have "dropWhile is_letter (tag @ 10 # rest) = 10 # rest"
    using assms by (simp add: dropWhile_append3 not_letter list_all_iff)
  then show ?thesis
    by (simp add: strip_opening_def fence_def)
qed

lemma strip_closing_line: "strip_closing (inner @ 10 # fence) = inner"
  by (simp add: strip_closing_def fence_def suffix_def)

lemma strip_closing_bare:
  assumes "inner = [] \<or> last inner \<noteq> 10"
  shows "strip_closing (inner @ fence) = inner"
proof -
  have "\<not> suffix (10 # fence) (inner @ fence)"
  proof
    assume "suffix (10 # fence) (inner @ fence)"
    then obtain zs where "inner @ fence = (zs @ [10]) @ fence"
      by (auto simp: suffix_def)
    then have "inner = zs @ [10]"
      by (simp only: append_same_eq)
    with assms show False by simp
  qed
  then show ?thesis
    by (simp add: strip_closing_def fence_def suffix_def)
qed

lemma strip_closing_none: "\<not> suffix fence s \<Longrightarrow> strip_closing s = s"
  by (auto simp: strip_closing_def suffix_def)

lemma clean_text_unfenced: "\<not> startsWith (trim s) fence \<Longrightarrow> clean_text s = trim s"
  by (simp add: clean_text_def Let_def)

lemma clean_text_fenced:
  assumes "trim s = fence @ tag @ 10 # rest" and "list_all is_letter tag"
  shows "clean_text s = strip_closing rest"
proof -
  have "startsWith (trim s) fence"
    using assms(1) by (simp add: startsWith_def)
  with assms show ?thesis
    by (simp add: clean_text_def Let_def strip_opening_tag)
qed

lemma generate_sql_parses_clean_text:
  assumes "truthy (body (js ''prompt''))"
    and "generateContent env (gemini_prompt env (body (js ''prompt''))) = Some s"
  shows "\<exists>evs. generate_sql env body =
     Generate (gemini_prompt env (body (js ''prompt''))) # JsonParse (clean_text s) # evs"
  using assms by (simp add: generate_sql_def Let_def)

text \<open>
  Claim C7, as amended. For every raw text \<open>raw\<close> of the model, what is handed to
  \<^verbatim>\<open>JSON.parse\<close> is \<open>clean_text raw\<close>, and: if the trimmed text does not begin with the fence
  marker, it is the trimmed text, unchanged; if the trimmed text begins with the marker,
  then a tag of ASCII letters only (possibly none), then a line feed, that opening line
  is removed, and of what follows a marker at the very end is removed, together with one
  line feed before it if there is one, and nothing when it does not end with the marker.
\<close>

theorem normalization:
  "(\<not> startsWith (trim raw) fence \<longrightarrow> clean_text raw = trim raw) \<and>
   (trim raw = fence @ tag @ 10 # rest \<and> list_all is_letter tag \<longrightarrow>
      clean_text raw = strip_closing rest) \<and>
   strip_closing (inner @ 10 # fence) = inner \<and>
   (inner = [] \<or> last inner \<noteq> 10 \<longrightarrow> strip_closing (inner @ fence) = inner) \<and>
   (\<not> suffix fence rest \<longrightarrow> strip_closing rest = rest) \<and>
   (truthy (body (js ''prompt'')) \<and>
    generateContent env (gemini_prompt env (body (js ''prompt''))) = Some raw \<longrightarrow>
      (\<exists>evs. generate_sql env body =
         Generate (gemini_prompt env (body (js ''prompt''))) # JsonParse (clean_text raw) # evs))"
  using clean_text_unfenced [of raw] clean_text_fenced [of raw tag rest]
    strip_closing_line [of inner] strip_closing_bare [of inner] strip_closing_none [of rest]
    generate_sql_parses_clean_text [of body env raw]
  by blast

text \<open>
  The theorem at \<open>fenced_answer\<close> (fenced, tag \<^verbatim>\<open>json\<close>) and at \<open>bare_answer\<close> (no fence): both
  hand \<^verbatim>\<open>{}\<close> to the parser.
\<close>

theorem normalization_witness:
  "trim fenced_answer = fence @ js ''json'' @ 10 # (js ''{}'' @ 10 # fence) \<and>
   list_all is_letter (js ''json'') \<and>
   clean_text fenced_answer = js ''{}'' \<and>
   \<not> startsWith (trim bare_answer) fence \<and>
   clean_text bare_answer = js ''{}'' \<and>
   \<not> suffix fence (js ''{}'') \<and>
   strip_closing (js ''{}'') = js ''{}'' \<and>
   last (js ''{}'') \<noteq> 10 \<and>
   strip_closing (js ''{}'' @ fence) = js ''{}'' \<and>
   truthy (prompt_body (Str (js ''all students'')) (js ''prompt'')) \<and>
   generateContent (echo_env fenced_answer)
     (gemini_prompt (echo_env fenced_answer) (prompt_body (Str (js ''all students'')) (js ''prompt'')))
     = Some fenced_answer \<and>
   (\<exists>evs. generate_sql (echo_env fenced_answer) (prompt_body (Str (js ''all students''))) =
      Generate (js ''Natural language request: all students'') # JsonParse (js ''{}'') # evs)"
proof -
  have t: "trim fenced_answer = fence @ js ''json'' @ 10 # (js ''{}'' @ 10 # fence)"
    by (simp add: trim_def fenced_answer_def fence_def js_def is_space_def)
  have l: "list_all is_letter (js ''json'')"
    by (simp add: js_def is_letter_def)
  have u: "\<not> startsWith (trim bare_answer) fence"
    and tb: "trim bare_answer = js ''{}''"
    by (simp_all add: trim_def bare_answer_def fence_def js_def is_space_def startsWith_def)
  have s: "\<not> suffix fence (js ''{}'')"
    by (simp add: fence_def js_def suffix_def)
  have p: "truthy (prompt_body (Str (js ''all students'')) (js ''prompt''))"
    by (simp add: prompt_body_def js_def)
  have g: "generateContent (echo_env fenced_answer)
     (gemini_prompt (echo_env fenced_answer) (prompt_body (Str (js ''all students'')) (js ''prompt'')))
     = Some fenced_answer"
    by (simp add: echo_env_def)
  have gp: "gemini_prompt (echo_env fenced_answer)
      (prompt_body (Str (js ''all students'')) (js ''prompt''))
      = js ''Natural language request: all students''"
    by (simp add: echo_env_def prompt_body_def js_def)
  note n1 = normalization [of fenced_answer "js ''json''" "js ''{}'' @ 10 # fence" "js ''{}''"
      "prompt_body (Str (js ''all students''))" "echo_env fenced_answer"]
  from n1 t l have "clean_text fenced_answer = strip_closing (js ''{}'' @ 10 # fence)"
    by blast
  moreover from n1 have "strip_closing (js ''{}'' @ 10 # fence) = js ''{}''"
    by blast
  ultimately have a: "clean_text fenced_answer = js ''{}''"
    by simp
  from n1 p g
  have b: "\<exists>evs. generate_sql (echo_env fenced_answer) (prompt_body (Str (js ''all students''))) =
      Generate (gemini_prompt (echo_env fenced_answer)
        (prompt_body (Str (js ''all students'')) (js ''prompt''))) #
      JsonParse (clean_text fenced_answer) # evs"
    by blast
  note n2 = normalization [of bare_answer "[]" "js ''{}''" "[]"
      "prompt_body (Str (js ''all students''))" "echo_env fenced_answer"]
  from n2 u tb have c: "clean_text bare_answer = js ''{}''"
    by simp
  from n2 s have d: "strip_closing (js ''{}'') = js ''{}''"
    by blast
  have k: "last (js ''{}'') \<noteq> 10"
    by (simp add: js_def)
  with n1 have f: "strip_closing (js ''{}'' @ fence) = js ''{}''"
    by blast
  from b a gp have b': "\<exists>evs. generate_sql (echo_env fenced_answer)
      (prompt_body (Str (js ''all students''))) =
      Generate (js ''Natural language request: all students'') # JsonParse (js ''{}'') # evs"
    by simp
  from t l a u c s d k f p g b' show ?thesis by blast
qed

text \<open>
  Claim C7 as stated fails for a tag that is not made of letters only: of the opening
  line with the tag \<^verbatim>\<open>json5\<close> the digit and the line feed stay, and what is handed to the
  parser is not the fenced \<^verbatim>\<open>{}\<close>.
\<close>

theorem fence_tag_with_digit_kept:
  "clean_text (fence @ js ''json5'' @ [10] @ js ''{}'' @ [10] @ fence) = js ''5'' @ [10] @ js ''{}'' \<and>
   clean_text (fence @ js ''json5'' @ [10] @ js ''{}'' @ [10] @ fence) \<noteq> js ''{}''"
  by (simp add: clean_text_def Let_def trim_def is_space_def fence_def startsWith_def
      strip_opening_def strip_closing_def is_letter_def js_def suffix_def)

section \<open>The origin check\<close>

text \<open>
  Claim C8, as amended. For every request with a non-empty \<^verbatim>\<open>Origin\<close> header, the origin
  check lets the request through if and only if the origin is an entry of the allow-list,
  and otherwise ends it with the error \<^verbatim>\<open>Not allowed by CORS\<close>. A request with no \<^verbatim>\<open>Origin\<close>
  header, or with an empty one, is let through whatever the allow-list.
\<close>

theorem origin_check:
  "cors_origin allowedOrigins Undefined = Allowed \<and>
   cors_origin allowedOrigins (Str []) = Allowed \<and>
   (origin \<noteq> [] \<longrightarrow>
      cors_origin allowedOrigins (Str origin) =
        (if origin \<in> set allowedOrigins then Allowed
         else NotAllowed (js ''Not allowed by CORS'')))"
  by (auto simp: cors_origin_def)

text \<open>The theorem at an origin of the list and at one that is not.\<close>

theorem origin_check_witness:
  "js ''http://localhost:5173'' \<noteq> [] \<and> js ''http://evil.example'' \<noteq> [] \<and>
   cors_origin intended_origins (Str (js ''http://localhost:5173'')) = Allowed \<and>
   cors_origin intended_origins (Str (js ''http://evil.example''))
     = NotAllowed (js ''Not allowed by CORS'') \<and>
   cors_origin intended_origins Undefined = Allowed"
proof -
  have a: "js ''http://localhost:5173'' \<noteq> []" and b: "js ''http://evil.example'' \<noteq> []"
    by (simp_all add: js_def)
  have m: "js ''http://localhost:5173'' \<in> set intended_origins"
    "js ''http://evil.example'' \<notin> set intended_origins"
    by (simp_all add: intended_origins_def js_def)
  from origin_check [of intended_origins "js ''http://localhost:5173''"]
    origin_check [of intended_origins "js ''http://evil.example''"] a b m
  show ?thesis by simp
qed

text \<open>
  Claim C8 as stated fails for a request that carries an empty \<^verbatim>\<open>Origin\<close> header: the empty
  string is not in the allow-list, and the request is let through.
\<close>

theorem empty_origin_allowed:
  "cors_origin intended_origins (Str []) = Allowed \<and> [] \<notin> set intended_origins"
  by (simp add: cors_origin_def intended_origins_def js_def)

end
